theory Spec2Isabelle
  imports Main
begin

section \<open>Cargo check report generator (\<open>backend/check.py\<close>)\<close>

text \<open>
  The script reads \<open>check.json\<close> line by line, decodes every line with \<open>json.loads\<close>,
  keeps the compiler messages of level \<open>error\<close> or \<open>warning\<close> that carry a span,
  appends five lines of Markdown per kept message to the list \<open>out\<close>, and finally writes
  \<open>check.md\<close>: a fixed success text when nothing was kept, the heading followed by the
  joined lines otherwise.
\<close>

subsection \<open>Python values\<close>

text \<open>
  A Python \<open>str\<close> is a sequence of Unicode code points; it is modelled as the list of
  their numbers. \<open>ustr\<close> turns an (ASCII) literal of the theory into such a list.
\<close>

type_synonym ustring = "nat list"

definition ustr :: "string \<Rightarrow> ustring" where
  "ustr s = map of_char s"

text \<open>
  The values \<open>json.loads\<close> can return: \<open>None\<close>, \<open>bool\<close>, \<open>int\<close> (unbounded),
  \<open>float\<close>, \<open>str\<close>, \<open>list\<close> and \<open>dict\<close> with \<open>str\<close> keys. The type \<open>'f\<close> stands
  for the floats. A dict is the list of its items in insertion order; \<open>map_of\<close> looks a
  key up.
\<close>

datatype 'f pyval =
    PNone
  | PBool bool
  | PInt int
  | PFloat 'f
  | PStr ustring
  | PList "'f pyval list"
  | PDict "(ustring \<times> 'f pyval) list"

text \<open>
  The exceptions the statements of the loop can raise (none of them is caught). The model
  starts from the lines as the file iterator yields them and ends with the string handed
  to \<open>w.write\<close>: opening the files, decoding the bytes of \<open>check.json\<close> and encoding
  and writing the bytes of \<open>check.md\<close> are outside it.
\<close>

datatype pyerror = AttributeError | TypeError | KeyError | IndexError

text \<open>
  What the script uses of the interpreter and its library and is no code of the repository:
  \<^item> \<open>loads\<close>: \<open>json.loads\<close> on one line; \<open>None\<close> when it raises (whatever it raises, the
    bare \<open>except\<close> catches it);
  \<^item> \<open>float_bool\<close>: the truth value of a float (\<open>bool(x)\<close>);
  \<^item> \<open>repr\<close>: the text that \<open>str()\<close> gives for a float, a list or a dict.
\<close>

record 'f python =
  loads :: "ustring \<Rightarrow> 'f pyval option"
  float_bool :: "'f \<Rightarrow> bool"
  repr :: "'f pyval \<Rightarrow> ustring"

subsection \<open>Built-in operations\<close>

text \<open>\<open>x.get(k, d)\<close>: only a dict has the method.\<close>

definition py_get :: "'f pyval \<Rightarrow> ustring \<Rightarrow> 'f pyval \<Rightarrow> pyerror + 'f pyval" where
  "py_get x k d =
     (case x of
        PDict kvs \<Rightarrow> Inr (case map_of kvs k of Some v \<Rightarrow> v | None \<Rightarrow> d)
      | _ \<Rightarrow> Inl AttributeError)"

text \<open>\<open>bool(x)\<close>, as \<open>not spans\<close> computes it.\<close>

definition truthy :: "('f, 'z) python_scheme \<Rightarrow> 'f pyval \<Rightarrow> bool" where
  "truthy P x =
     (case x of
        PNone \<Rightarrow> False
      | PBool b \<Rightarrow> b
      | PInt i \<Rightarrow> i \<noteq> 0
      | PFloat f \<Rightarrow> float_bool P f
      | PStr s \<Rightarrow> s \<noteq> []
      | PList xs \<Rightarrow> xs \<noteq> []
      | PDict kvs \<Rightarrow> kvs \<noteq> [])"

text \<open>
  \<open>x[0]\<close>: the first element of a list, the first character of a str; a dict is asked
  for the key \<open>0\<close>, which no decoded dict has (its keys are strs); the other values are
  not subscriptable.
\<close>

definition py_first :: "'f pyval \<Rightarrow> pyerror + 'f pyval" where
  "py_first x =
     (case x of
        PList [] \<Rightarrow> Inl IndexError
      | PList (y # ys) \<Rightarrow> Inr y
      | PStr [] \<Rightarrow> Inl IndexError
      | PStr (c # cs) \<Rightarrow> Inr (PStr [c])
      | PDict kvs \<Rightarrow> Inl KeyError
      | _ \<Rightarrow> Inl TypeError)"

text \<open>Decimal digits of a number, most significant first.\<close>

fun show_nat :: "nat \<Rightarrow> ustring" where
  "show_nat n = (if n < 10 then [48 + n] else show_nat (n div 10) @ [48 + n mod 10])"

declare show_nat.simps [simp del]

definition show_int :: "int \<Rightarrow> ustring" where
  "show_int i = (if i < 0 then 45 # show_nat (nat (- i)) else show_nat (nat i))"

text \<open>\<open>str(x)\<close>, which is what a replacement field of an f-string inserts.\<close>

definition py_str :: "('f, 'z) python_scheme \<Rightarrow> 'f pyval \<Rightarrow> ustring" where
  "py_str P x =
     (case x of
        PNone \<Rightarrow> ustr ''None''
      | PBool b \<Rightarrow> (if b then ustr ''True'' else ustr ''False'')
      | PInt i \<Rightarrow> show_int i
      | PStr s \<Rightarrow> s
      | _ \<Rightarrow> repr P x)"

text \<open>
  \<open>s.title()\<close>: a letter that follows a letter is lowered, any other letter is raised.
  The case mapping is the one of the ASCII letters; the script calls \<open>title\<close> on
  \<open>level\<close> only, after it has compared equal to \<open>"error"\<close> or \<open>"warning"\<close>.
\<close>

definition is_upper :: "nat \<Rightarrow> bool" where
  "is_upper c = (65 \<le> c \<and> c \<le> 90)"

definition is_lower :: "nat \<Rightarrow> bool" where
  "is_lower c = (97 \<le> c \<and> c \<le> 122)"

definition to_upper :: "nat \<Rightarrow> nat" where
  "to_upper c = (if is_lower c then c - 32 else c)"

definition to_lower :: "nat \<Rightarrow> nat" where
  "to_lower c = (if is_upper c then c + 32 else c)"

fun title_from :: "bool \<Rightarrow> ustring \<Rightarrow> ustring" where
  "title_from previous_is_cased [] = []"
| "title_from previous_is_cased (c # cs) =
     (if previous_is_cased then to_lower c else to_upper c)
       # title_from (is_upper c \<or> is_lower c) cs"

definition title :: "ustring \<Rightarrow> ustring" where
  "title s = title_from False s"

definition py_title :: "'f pyval \<Rightarrow> pyerror + ustring" where
  "py_title x = (case x of PStr s \<Rightarrow> Inr (title s) | _ \<Rightarrow> Inl AttributeError)"

text \<open>
  \<open>s.rstrip()\<close> removes the trailing whitespace: the code points for which
  \<open>str.isspace\<close> holds.
\<close>

definition is_space :: "nat \<Rightarrow> bool" where
  "is_space c =
     ((9 \<le> c \<and> c \<le> 13) \<or> (28 \<le> c \<and> c \<le> 32) \<or> c = 133 \<or> c = 160 \<or> c = 5760
      \<or> (8192 \<le> c \<and> c \<le> 8202) \<or> c = 8232 \<or> c = 8233 \<or> c = 8239 \<or> c = 8287
      \<or> c = 12288)"

definition rstrip :: "ustring \<Rightarrow> ustring" where
  "rstrip s = rev (dropWhile is_space (rev s))"

definition py_rstrip :: "'f pyval \<Rightarrow> pyerror + ustring" where
  "py_rstrip x = (case x of PStr s \<Rightarrow> Inr (rstrip s) | _ \<Rightarrow> Inl AttributeError)"

text \<open>\<open>sep.join(xs)\<close>.\<close>

fun join :: "ustring \<Rightarrow> ustring list \<Rightarrow> ustring" where
  "join sep [] = []"
| "join sep [x] = x"
| "join sep (x # y # ys) = x @ sep @ join sep (y # ys)"

subsection \<open>The script\<close>

text \<open>Sequencing of steps that may raise.\<close>

definition bindE :: "pyerror + 'a \<Rightarrow> ('a \<Rightarrow> pyerror + 'b) \<Rightarrow> pyerror + 'b" where
  "bindE m f = (case m of Inl e \<Rightarrow> Inl e | Inr v \<Rightarrow> f v)"

text \<open>The two module-level variables the loop updates.\<close>

record state =
  out :: "ustring list"
  has_messages :: bool

definition init :: state where
  "init = \<lparr>out = [], has_messages = False\<rparr>"

definition append :: "ustring \<Rightarrow> state \<Rightarrow> state" where
  "append x st = st\<lparr>out := out st @ [x]\<rparr>"

text \<open>
  The body of \<open>for line in f\<close>. \<open>Inr st\<close> with the state unchanged is \<open>continue\<close>;
  \<open>Inl e\<close> is an exception that leaves the loop and the script.
\<close>

definition loop_body :: "('f, 'z) python_scheme \<Rightarrow> ustring \<Rightarrow> state \<Rightarrow> pyerror + state" where
  "loop_body P line st =
     (case loads P line of
        None \<Rightarrow> Inr st
      | Some obj \<Rightarrow>
          bindE (py_get obj (ustr ''reason'') PNone) (\<lambda>reason.
          if reason \<noteq> PStr (ustr ''compiler-message'') then Inr st
          else
          bindE (py_get obj (ustr ''message'') (PDict [])) (\<lambda>msg.
          bindE (py_get msg (ustr ''level'') PNone) (\<lambda>level.
          if \<not> (level = PStr (ustr ''error'') \<or> level = PStr (ustr ''warning'')) then Inr st
          else
          bindE (py_get msg (ustr ''spans'') (PList [])) (\<lambda>spans.
          if \<not> truthy P spans then Inr st
          else
          let st1 = st\<lparr>has_messages := True\<rparr> in
          bindE (py_first spans) (\<lambda>span.
          bindE (py_title level) (\<lambda>titled.
          bindE (py_get msg (ustr ''message'') (PStr [])) (\<lambda>text.
          let st2 = append (ustr ''### '' @ titled @ ustr '': '' @ py_str P text) st1 in
          bindE (py_get span (ustr ''file_name'') PNone) (\<lambda>file_name.
          bindE (py_get span (ustr ''line_start'') PNone) (\<lambda>line_start.
          let st3 = append (ustr ''File: '' @ py_str P file_name @ ustr '':''
                              @ py_str P line_start) st2 in
          let st4 = append (ustr ''```rust'') st3 in
          bindE (py_get msg (ustr ''rendered'') (PStr [])) (\<lambda>rendered.
          bindE (py_rstrip rendered) (\<lambda>stripped.
          let st5 = append stripped st4 in
          Inr (append (ustr ''```'' @ [10]) st5)))))))))))))"

text \<open>The loop over the lines of the file, in order; it stops at the first exception.\<close>

fun loop :: "('f, 'z) python_scheme \<Rightarrow> ustring list \<Rightarrow> state \<Rightarrow> pyerror + state" where
  "loop P [] st = Inr st"
| "loop P (line # rest) st =
     (case loop_body P line st of Inl e \<Rightarrow> Inl e | Inr st' \<Rightarrow> loop P rest st')"

text \<open>The text written to \<open>check.md\<close> after the loop.\<close>

definition success_document :: ustring where
  "success_document =
     ustr ''# Cargo Check Report'' @ [10, 10]
       @ ustr ''No warnings or errors. Build success.'' @ [10]"

definition document :: "state \<Rightarrow> ustring" where
  "document st =
     (if \<not> has_messages st then success_document
      else ustr ''# Cargo Check Report'' @ [10, 10] @ join [10] (out st))"

text \<open>
  The script on the lines of \<open>check.json\<close>: the string it hands to \<open>w.write\<close>, or
  the exception that ends it before \<open>check.md\<close> is opened.
\<close>

definition run :: "('f, 'z) python_scheme \<Rightarrow> ustring list \<Rightarrow> pyerror + ustring" where
  "run P lines = (case loop P lines init of Inl e \<Rightarrow> Inl e | Inr st \<Rightarrow> Inr (document st))"

subsection \<open>The specification's view of a record\<close>

text \<open>
  The specification speaks of the fields of a decoded record. \<open>field x k\<close> is the field
  \<open>k\<close> of \<open>x\<close>: present only when \<open>x\<close> is an object that has the key.
\<close>

definition field :: "'f pyval \<Rightarrow> ustring \<Rightarrow> 'f pyval option" where
  "field x k = (case x of PDict kvs \<Rightarrow> map_of kvs k | _ \<Rightarrow> None)"

definition field_or :: "'f pyval \<Rightarrow> ustring \<Rightarrow> 'f pyval \<Rightarrow> 'f pyval" where
  "field_or x k d = (case field x k of Some v \<Rightarrow> v | None \<Rightarrow> d)"

text \<open>
  The filter of the specification: \<open>reason\<close> equals \<open>"compiler-message"\<close>,
  \<open>message.level\<close> is \<open>"error"\<close> or \<open>"warning"\<close>, and \<open>message.spans\<close> is a
  non-empty sequence.
\<close>

definition qualifies :: "'f pyval \<Rightarrow> bool" where
  "qualifies obj =
     (field obj (ustr ''reason'') = Some (PStr (ustr ''compiler-message''))
      \<and> (case field obj (ustr ''message'') of
            None \<Rightarrow> False
          | Some msg \<Rightarrow>
              (field msg (ustr ''level'') = Some (PStr (ustr ''error''))
               \<or> field msg (ustr ''level'') = Some (PStr (ustr ''warning'')))
              \<and> (case field msg (ustr ''spans'') of
                    Some (PList (s # ss)) \<Rightarrow> True
                  | _ \<Rightarrow> False)))"

text \<open>A line passes when it decodes and the decoded record passes the filter.\<close>

definition line_qualifies :: "('f, 'z) python_scheme \<Rightarrow> ustring \<Rightarrow> bool" where
  "line_qualifies P line = (case loads P line of None \<Rightarrow> False | Some obj \<Rightarrow> qualifies obj)"

text \<open>The first letter capitalised, the rest in lower case.\<close>

definition capitalize :: "ustring \<Rightarrow> ustring" where
  "capitalize s = (case s of [] \<Rightarrow> [] | c # cs \<Rightarrow> to_upper c # map to_lower cs)"

definition text_of :: "'f pyval \<Rightarrow> ustring" where
  "text_of x = (case x of PStr s \<Rightarrow> s | _ \<Rightarrow> [])"

text \<open>
  The block of a record as the specification lays it out: the heading line, the location
  line taken from the first span, the opening fence, the rendered text without its
  trailing whitespace, and the closing fence with its terminating newline.
\<close>

definition heading_line :: "('f, 'z) python_scheme \<Rightarrow> 'f pyval \<Rightarrow> ustring" where
  "heading_line P obj =
     (let msg = field_or obj (ustr ''message'') (PDict [])
      in ustr ''### '' @ capitalize (text_of (field_or msg (ustr ''level'') PNone)) @ ustr '': ''
           @ py_str P (field_or msg (ustr ''message'') (PStr [])))"

definition first_span :: "'f pyval \<Rightarrow> 'f pyval" where
  "first_span obj =
     (case field_or (field_or obj (ustr ''message'') (PDict [])) (ustr ''spans'') (PList []) of
        PList (s # ss) \<Rightarrow> s
      | _ \<Rightarrow> PNone)"

definition location_line :: "('f, 'z) python_scheme \<Rightarrow> 'f pyval \<Rightarrow> ustring" where
  "location_line P obj =
     ustr ''File: '' @ py_str P (field_or (first_span obj) (ustr ''file_name'') PNone)
       @ ustr '':'' @ py_str P (field_or (first_span obj) (ustr ''line_start'') PNone)"

definition rendered_text :: "'f pyval \<Rightarrow> ustring" where
  "rendered_text obj =
     rstrip (text_of (field_or (field_or obj (ustr ''message'') (PDict []))
                        (ustr ''rendered'') (PStr [])))"

definition block :: "('f, 'z) python_scheme \<Rightarrow> 'f pyval \<Rightarrow> ustring list" where
  "block P obj =
     [heading_line P obj, location_line P obj, ustr ''```rust'', rendered_text obj,
      ustr ''```'' @ [10]]"

text \<open>
  The text of a block in the report: its five lines, each followed by a newline, so that
  the closing fence is followed by the newline that the last buffered element carries.
\<close>

definition block_text :: "('f, 'z) python_scheme \<Rightarrow> 'f pyval \<Rightarrow> ustring" where
  "block_text P obj =
     heading_line P obj @ [10] @ location_line P obj @ [10] @ ustr ''```rust'' @ [10]
       @ rendered_text obj @ [10] @ ustr ''```'' @ [10]"

text \<open>The records of the input that pass the filter, in the order of their lines.\<close>

definition qualifying :: "('f, 'z) python_scheme \<Rightarrow> ustring list \<Rightarrow> 'f pyval list" where
  "qualifying P lines = filter qualifies (List.map_filter (loads P) lines)"

text \<open>
  The shapes the script relies on without checking them: a value is an object, a value
  is a text.
\<close>

definition is_object :: "'f pyval \<Rightarrow> bool" where
  "is_object x = (case x of PDict kvs \<Rightarrow> True | _ \<Rightarrow> False)"

definition is_text :: "'f pyval \<Rightarrow> bool" where
  "is_text x = (case x of PStr s \<Rightarrow> True | _ \<Rightarrow> False)"

text \<open>
  The values of \<open>spans\<close> that count as no spans: \<open>null\<close>, \<open>false\<close>, zero, and the empty
  string, list and object (an absent \<open>spans\<close> is the empty list).
\<close>

definition empty_value :: "('f, 'z) python_scheme \<Rightarrow> 'f pyval \<Rightarrow> bool" where
  "empty_value P x =
     (x = PNone \<or> x = PBool False \<or> x = PInt 0 \<or> x = PStr [] \<or> x = PList [] \<or> x = PDict []
      \<or> (case x of PFloat f \<Rightarrow> \<not> float_bool P f | _ \<Rightarrow> False))"

text \<open>
  A record that is skipped: an object whose \<open>reason\<close> is not \<open>"compiler-message"\<close>, or
  whose \<open>message\<close> is absent or an object and has a level other than \<open>"error"\<close> and
  \<open>"warning"\<close> or has no spans.
\<close>

definition skips :: "('f, 'z) python_scheme \<Rightarrow> 'f pyval \<Rightarrow> bool" where
  "skips P obj =
     (is_object obj
      \<and> (field_or obj (ustr ''reason'') PNone \<noteq> PStr (ustr ''compiler-message'')
         \<or> is_object (field_or obj (ustr ''message'') (PDict []))
           \<and> ((field_or (field_or obj (ustr ''message'') (PDict [])) (ustr ''level'') PNone
                  \<noteq> PStr (ustr ''error'')
                \<and> field_or (field_or obj (ustr ''message'') (PDict [])) (ustr ''level'') PNone
                  \<noteq> PStr (ustr ''warning''))
              \<or> empty_value P (field_or (field_or obj (ustr ''message'') (PDict []))
                                 (ustr ''spans'') (PList [])))))"

text \<open>
  A record that gets a block: it passes the filter, its first span is an object, and its
  \<open>rendered\<close> is absent or a text.
\<close>

definition emits :: "'f pyval \<Rightarrow> bool" where
  "emits obj =
     (qualifies obj
      \<and> is_object (first_span obj)
      \<and> is_text (field_or (field_or obj (ustr ''message'') (PDict [])) (ustr ''rendered'')
                   (PStr [])))"

text \<open>A line that adds nothing: it does not decode, or its record is skipped.\<close>

definition skipped :: "('f, 'z) python_scheme \<Rightarrow> ustring \<Rightarrow> bool" where
  "skipped P line = (case loads P line of None \<Rightarrow> True | Some obj \<Rightarrow> skips P obj)"

text \<open>A line the script gets past: it adds nothing, or its record gets a block.\<close>

definition handled :: "('f, 'z) python_scheme \<Rightarrow> ustring \<Rightarrow> bool" where
  "handled P line =
     (case loads P line of None \<Rightarrow> True | Some obj \<Rightarrow> skips P obj \<or> emits obj)"


subsection \<open>Sample inputs\<close>

text \<open>
  A small interpreter for concrete runs: \<open>sample_loads\<close> decodes the lines of a table and
  fails on every other line.
\<close>

definition record_mismatched :: "'f pyval" where
  "record_mismatched =
     PDict [(ustr ''reason'', PStr (ustr ''compiler-message'')),
            (ustr ''message'', PDict
               [(ustr ''level'', PStr (ustr ''error'')),
                (ustr ''message'', PStr (ustr ''mismatched types'')),
                (ustr ''spans'', PList [PDict [(ustr ''file_name'', PStr (ustr ''src/main.rs'')),
                                              (ustr ''line_start'', PInt 10)]]),
                (ustr ''rendered'',
                   PStr (ustr ''error: mismatched types'' @ [10] @ ustr '' --> src/main.rs:10''))])]"

definition record_unused :: "unit pyval" where
  "record_unused =
     PDict [(ustr ''reason'', PStr (ustr ''compiler-message'')),
            (ustr ''message'', PDict
               [(ustr ''level'', PStr (ustr ''warning'')),
                (ustr ''message'', PStr (ustr ''unused variable'')),
                (ustr ''spans'', PList [PDict [(ustr ''file_name'', PStr (ustr ''src/lib.rs'')),
                                              (ustr ''line_start'', PInt 3)]]),
                (ustr ''rendered'', PStr (ustr ''warning: unused variable'' @ [10, 10]))])]"

definition record_artifact :: "unit pyval" where
  "record_artifact = PDict [(ustr ''reason'', PStr (ustr ''compiler-artifact''))]"

definition record_null_rendered :: "unit pyval" where
  "record_null_rendered =
     PDict [(ustr ''reason'', PStr (ustr ''compiler-message'')),
            (ustr ''message'', PDict
               [(ustr ''level'', PStr (ustr ''error'')),
                (ustr ''spans'', PList [PDict []]),
                (ustr ''rendered'', PNone)])]"

definition record_no_spans :: "unit pyval" where
  "record_no_spans =
     PDict [(ustr ''reason'', PStr (ustr ''compiler-message'')),
            (ustr ''message'', PDict
               [(ustr ''level'', PStr (ustr ''warning'')),
                (ustr ''message'', PStr (ustr ''no location'')),
                (ustr ''spans'', PList [])])]"

definition record_text_message :: "unit pyval" where
  "record_text_message =
     PDict [(ustr ''reason'', PStr (ustr ''compiler-message'')),
            (ustr ''message'', PStr (ustr ''some text''))]"

definition sample_table :: "(ustring \<times> unit pyval) list" where
  "sample_table =
     [(ustr ''E'', record_mismatched),
      (ustr ''W'', record_unused),
      (ustr ''A'', record_artifact),
      (ustr ''R'', record_null_rendered),
      (ustr ''T'', record_text_message),
      (ustr ''N'', record_no_spans),
      (ustr ''5'', PInt 5)]"

definition sample_float_bool :: "unit \<Rightarrow> bool" where
  "sample_float_bool f = True"

definition sample_repr :: "unit pyval \<Rightarrow> ustring" where
  "sample_repr x = []"

definition sample_python :: "unit python" where
  "sample_python =
     \<lparr>loads = map_of sample_table, float_bool = sample_float_bool, repr = sample_repr\<rparr>"

section \<open>Properties\<close>

subsection \<open>The body of the loop\<close>

lemma py_get_Inr: "py_get x k d = Inr v \<Longrightarrow> (\<exists>kvs. x = PDict kvs) \<and> v = field_or x k d"
  by (auto simp: py_get_def field_or_def field_def split: pyval.splits)

lemma py_get_PDict: "py_get (PDict kvs) k d = Inr (field_or (PDict kvs) k d)"
  by (simp add: py_get_def field_or_def field_def)

lemma py_get_not_dict: "(\<forall>kvs. x \<noteq> PDict kvs) \<Longrightarrow> py_get x k d = Inl AttributeError"
  by (cases x) (simp_all add: py_get_def)

lemma py_first_Inr:
  "py_first x = Inr y \<Longrightarrow> (\<exists>ys. x = PList (y # ys)) \<or> (\<exists>c cs. x = PStr (c # cs) \<and> y = PStr [c])"
  by (auto simp: py_first_def split: pyval.splits list.splits)

lemma title_level:
  "title (ustr ''error'') = ustr ''Error''" "title (ustr ''warning'') = ustr ''Warning''"
  by (simp_all add: title_def ustr_def to_upper_def to_lower_def is_upper_def is_lower_def)

lemma capitalize_level:
  "capitalize (ustr ''error'') = ustr ''Error''" "capitalize (ustr ''warning'') = ustr ''Warning''"
  by (simp_all add: capitalize_def ustr_def to_upper_def to_lower_def is_upper_def is_lower_def)

lemma loop_body_None: "loads P l = None \<Longrightarrow> loop_body P l st = Inr st"
  by (simp add: loop_body_def)

lemma bindE_simps [simp]: "bindE (Inl e) f = Inl e" "bindE (Inr v) f = f v"
  by (simp_all add: bindE_def)

lemma qualifies_iff:
  "qualifies obj \<longleftrightarrow>
     field_or obj (ustr ''reason'') PNone = PStr (ustr ''compiler-message'')
     \<and> (field_or (field_or obj (ustr ''message'') (PDict [])) (ustr ''level'') PNone
           = PStr (ustr ''error'')
        \<or> field_or (field_or obj (ustr ''message'') (PDict [])) (ustr ''level'') PNone
           = PStr (ustr ''warning''))
     \<and> (\<exists>s ss. field_or (field_or obj (ustr ''message'') (PDict [])) (ustr ''spans'') (PList [])
           = PList (s # ss))"
  by (auto simp: qualifies_def field_or_def field_def split: option.splits pyval.splits list.splits)

lemma loop_body_not_dict:
  "loads P l = Some obj \<Longrightarrow> (\<forall>kvs. obj \<noteq> PDict kvs) \<Longrightarrow> loop_body P l st = Inl AttributeError"
  by (simp add: loop_body_def py_get_not_dict)

lemma loop_body_other_reason:
  "loads P l = Some (PDict kvs) \<Longrightarrow>
   field_or (PDict kvs) (ustr ''reason'') PNone \<noteq> PStr (ustr ''compiler-message'') \<Longrightarrow>
   loop_body P l st = Inr st"
  by (simp add: loop_body_def py_get_PDict)

lemma loop_body_message_not_dict:
  "loads P l = Some (PDict kvs) \<Longrightarrow>
   field_or (PDict kvs) (ustr ''reason'') PNone = PStr (ustr ''compiler-message'') \<Longrightarrow>
   (\<forall>mk. field_or (PDict kvs) (ustr ''message'') (PDict []) \<noteq> PDict mk) \<Longrightarrow>
   loop_body P l st = Inl AttributeError"
  by (simp add: loop_body_def py_get_PDict py_get_not_dict)

lemma loop_body_other_level:
  "loads P l = Some (PDict kvs) \<Longrightarrow>
   field_or (PDict kvs) (ustr ''reason'') PNone = PStr (ustr ''compiler-message'') \<Longrightarrow>
   field_or (PDict kvs) (ustr ''message'') (PDict []) = PDict mk \<Longrightarrow>
   field_or (PDict mk) (ustr ''level'') PNone \<noteq> PStr (ustr ''error'') \<Longrightarrow>
   field_or (PDict mk) (ustr ''level'') PNone \<noteq> PStr (ustr ''warning'') \<Longrightarrow>
   loop_body P l st = Inr st"
  by (simp add: loop_body_def py_get_PDict)

lemma loop_body_no_spans:
  "loads P l = Some (PDict kvs) \<Longrightarrow>
   field_or (PDict kvs) (ustr ''reason'') PNone = PStr (ustr ''compiler-message'') \<Longrightarrow>
   field_or (PDict kvs) (ustr ''message'') (PDict []) = PDict mk \<Longrightarrow>
   \<not> truthy P (field_or (PDict mk) (ustr ''spans'') (PList [])) \<Longrightarrow>
   loop_body P l st = Inr st"
  by (simp add: loop_body_def py_get_PDict)

lemma loop_body_emit:
  "loads P l = Some (PDict kvs) \<Longrightarrow>
   field_or (PDict kvs) (ustr ''reason'') PNone = PStr (ustr ''compiler-message'') \<Longrightarrow>
   field_or (PDict kvs) (ustr ''message'') (PDict []) = PDict mk \<Longrightarrow>
   field_or (PDict mk) (ustr ''level'') PNone = PStr lv \<Longrightarrow>
   lv = ustr ''error'' \<or> lv = ustr ''warning'' \<Longrightarrow>
   truthy P (field_or (PDict mk) (ustr ''spans'') (PList [])) \<Longrightarrow>
   loop_body P l st =
     bindE (py_first (field_or (PDict mk) (ustr ''spans'') (PList []))) (\<lambda>span.
     bindE (py_get span (ustr ''file_name'') PNone) (\<lambda>file_name.
     bindE (py_get span (ustr ''line_start'') PNone) (\<lambda>line_start.
     bindE (py_rstrip (field_or (PDict mk) (ustr ''rendered'') (PStr []))) (\<lambda>stripped.
     Inr (st\<lparr>has_messages := True,
              out := out st @
                [ustr ''### '' @ title lv @ ustr '': ''
                   @ py_str P (field_or (PDict mk) (ustr ''message'') (PStr [])),
                 ustr ''File: '' @ py_str P file_name @ ustr '':'' @ py_str P line_start,
                 ustr ''```rust'', stripped, ustr ''```'' @ [10]]\<rparr>)))))"
  by (auto simp: loop_body_def py_get_PDict py_title_def append_def Let_def bindE_def
      split: sum.splits)

lemma truthy_PList: "truthy P (PList (s # ss))"
  by (simp add: truthy_def)

lemma empty_value_iff: "empty_value P x \<longleftrightarrow> \<not> truthy P x"
  by (cases x) (auto simp: empty_value_def truthy_def)

lemma is_objectE: "is_object x \<Longrightarrow> (\<And>kvs. x = PDict kvs \<Longrightarrow> thesis) \<Longrightarrow> thesis"
  by (cases x) (simp_all add: is_object_def)

lemma is_textE: "is_text x \<Longrightarrow> (\<And>t. x = PStr t \<Longrightarrow> thesis) \<Longrightarrow> thesis"
  by (cases x) (simp_all add: is_text_def)

lemma skips_not_qualifies: "skips P obj \<Longrightarrow> \<not> qualifies obj"
  by (auto simp: skips_def qualifies_iff empty_value_iff truthy_PList)

lemma emits_qualifies: "emits obj \<Longrightarrow> qualifies obj"
  by (simp add: emits_def)

text \<open>A run of the body that raises nothing has skipped the record or given it its block.\<close>

lemma loop_body_Inr_cases:
  assumes dec: "loads P l = Some obj" and run: "loop_body P l st = Inr st'"
  shows "(skips P obj \<and> st' = st)
       \<or> (emits obj \<and> st' = st\<lparr>has_messages := True, out := out st @ block P obj\<rparr>)"
proof -
  obtain kvs where obj: "obj = PDict kvs"
    using loop_body_not_dict [OF dec, of st] run by auto
  note dec' = dec [unfolded obj]
  show ?thesis
  proof (cases "field_or obj (ustr ''reason'') PNone = PStr (ustr ''compiler-message'')")
    case False
    then have "loop_body P l st = Inr st" "skips P obj"
      using loop_body_other_reason [OF dec'] by (simp_all add: obj skips_def is_object_def)
    with run show ?thesis by simp
  next
    case reason: True
    obtain mk where msg: "field_or obj (ustr ''message'') (PDict []) = PDict mk"
      using loop_body_message_not_dict [OF dec', of st] reason run by (auto simp: obj)
    show ?thesis
    proof (cases "field_or (PDict mk) (ustr ''level'') PNone = PStr (ustr ''error'')
        \<or> field_or (PDict mk) (ustr ''level'') PNone = PStr (ustr ''warning'')")
      case False
      then have "loop_body P l st = Inr st" "skips P obj"
        using loop_body_other_level [OF dec', of mk st] reason msg
        by (simp_all add: obj skips_def is_object_def)
      with run show ?thesis by simp
    next
      case level: True
      then obtain lv where lv: "field_or (PDict mk) (ustr ''level'') PNone = PStr lv"
        "lv = ustr ''error'' \<or> lv = ustr ''warning''"
        by auto
      show ?thesis
      proof (cases "truthy P (field_or (PDict mk) (ustr ''spans'') (PList []))")
        case False
        then have "loop_body P l st = Inr st" "skips P obj"
          using loop_body_no_spans [OF dec', of mk st] reason msg
          by (simp_all add: obj skips_def is_object_def empty_value_iff)
        with run show ?thesis by simp
      next
        case spans: True
        note emit = loop_body_emit [OF dec' reason [unfolded obj] msg [unfolded obj] lv spans,
            of st, unfolded run]
        from emit obtain span where
          span: "py_first (field_or (PDict mk) (ustr ''spans'') (PList [])) = Inr span"
          by (auto simp: bindE_def split: sum.splits)
        from emit span obtain sk where sk: "span = PDict sk"
          by (cases span) (auto simp: py_get_def)
        from emit span sk obtain t where
          t: "field_or (PDict mk) (ustr ''rendered'') (PStr []) = PStr t"
          by (cases "field_or (PDict mk) (ustr ''rendered'') (PStr [])")
             (auto simp: py_get_PDict py_rstrip_def)
        from span sk obtain ss where
          ss: "field_or (PDict mk) (ustr ''spans'') (PList []) = PList (PDict sk # ss)"
          by (auto dest!: py_first_Inr)
        have q: "qualifies obj"
          using reason msg level ss by (simp add: qualifies_iff)
        have e: "emits obj"
          using q msg ss t by (simp add: emits_def first_span_def is_object_def is_text_def)
        have "title lv = capitalize lv"
          using lv(2) by (auto simp: title_level capitalize_level)
        then have "st' = st\<lparr>has_messages := True, out := out st @ block P obj\<rparr>"
          using emit span sk t ss msg lv(1)
          by (simp add: py_get_PDict py_rstrip_def block_def heading_line_def location_line_def
                rendered_text_def first_span_def text_of_def)
        with e show ?thesis by simp
      qed
    qed
  qed
qed

lemma loop_body_Inr:
  assumes "loads P l = Some obj" and "loop_body P l st = Inr st'"
  shows "st' = (if qualifies obj
               then st\<lparr>has_messages := True, out := out st @ block P obj\<rparr> else st)"
  using loop_body_Inr_cases [OF assms] skips_not_qualifies [of P obj] emits_qualifies [of obj]
  by auto

text \<open>Conversely, a skipped record and a record that gets a block raise nothing.\<close>

lemma loop_body_skips:
  assumes dec: "loads P l = Some obj" and skip: "skips P obj"
  shows "loop_body P l st = Inr st"
proof -
  from skip have "is_object obj" by (simp add: skips_def)
  then obtain kvs where obj: "obj = PDict kvs" by (rule is_objectE)
  note dec' = dec [unfolded obj]
  show ?thesis
  proof (cases "field_or obj (ustr ''reason'') PNone = PStr (ustr ''compiler-message'')")
    case False
    then show ?thesis using loop_body_other_reason [OF dec'] by (simp add: obj)
  next
    case reason: True
    with skip have "is_object (field_or obj (ustr ''message'') (PDict []))"
      by (simp add: skips_def)
    then obtain mk where msg: "field_or obj (ustr ''message'') (PDict []) = PDict mk"
      by (rule is_objectE)
    from skip reason msg consider
      (level) "field_or (PDict mk) (ustr ''level'') PNone \<noteq> PStr (ustr ''error'')"
        "field_or (PDict mk) (ustr ''level'') PNone \<noteq> PStr (ustr ''warning'')"
    | (spans) "\<not> truthy P (field_or (PDict mk) (ustr ''spans'') (PList []))"
      by (auto simp: skips_def empty_value_iff)
    then show ?thesis
    proof cases
      case level
      then show ?thesis
        using loop_body_other_level [OF dec', of mk st] reason msg by (simp add: obj)
    next
      case spans
      then show ?thesis
        using loop_body_no_spans [OF dec', of mk st] reason msg by (simp add: obj)
    qed
  qed
qed

lemma loop_body_emits:
  assumes dec: "loads P l = Some obj" and emit: "emits obj"
  shows "loop_body P l st = Inr (st\<lparr>has_messages := True, out := out st @ block P obj\<rparr>)"
proof -
  from emit have q: "qualifies obj" by (simp add: emits_def)
  then have reason: "field_or obj (ustr ''reason'') PNone = PStr (ustr ''compiler-message'')"
    by (simp add: qualifies_iff)
  then obtain kvs where obj: "obj = PDict kvs"
    by (cases obj) (simp_all add: field_or_def field_def)
  note dec' = dec [unfolded obj]
  from q obtain lv where
    lv: "field_or (field_or obj (ustr ''message'') (PDict [])) (ustr ''level'') PNone = PStr lv"
      "lv = ustr ''error'' \<or> lv = ustr ''warning''"
    by (auto simp: qualifies_iff)
  then obtain mk where msg: "field_or obj (ustr ''message'') (PDict []) = PDict mk"
    by (cases "field_or obj (ustr ''message'') (PDict [])") (simp_all add: field_or_def field_def)
  from q msg obtain s ss where
    ss: "field_or (PDict mk) (ustr ''spans'') (PList []) = PList (s # ss)"
    by (auto simp: qualifies_iff)
  from emit msg ss have "is_object s"
    by (simp add: emits_def first_span_def)
  then obtain sk where sk: "s = PDict sk" by (rule is_objectE)
  from emit msg have "is_text (field_or (PDict mk) (ustr ''rendered'') (PStr []))"
    by (simp add: emits_def)
  then obtain t where t: "field_or (PDict mk) (ustr ''rendered'') (PStr []) = PStr t"
    by (rule is_textE)
  have c: "title lv = capitalize lv"
    using lv(2) by (auto simp: title_level capitalize_level)
  have "truthy P (field_or (PDict mk) (ustr ''spans'') (PList []))"
    by (simp add: ss truthy_PList)
  from loop_body_emit [OF dec' reason [unfolded obj] msg [unfolded obj]
      lv(1) [unfolded msg] lv(2) this, of st]
  show ?thesis
    using ss sk t msg lv(1) c
    by (simp add: py_first_def py_get_PDict py_rstrip_def block_def heading_line_def
          location_line_def rendered_text_def first_span_def text_of_def)
qed

lemma loop_body_skipped: "skipped P l \<Longrightarrow> loop_body P l st = Inr st"
  by (auto simp: skipped_def loop_body_None loop_body_skips split: option.splits)


subsection \<open>The loop and the document\<close>

lemma loop_append:
  "loop P (xs @ ys) st = (case loop P xs st of Inl e \<Rightarrow> Inl e | Inr st' \<Rightarrow> loop P ys st')"
  by (induction xs arbitrary: st) (auto split: sum.splits)

lemma qualifying_Nil: "qualifying P [] = []"
  by (simp add: qualifying_def)

lemma qualifying_Cons:
  "qualifying P (l # ls) =
     (case loads P l of
        None \<Rightarrow> qualifying P ls
      | Some obj \<Rightarrow> if qualifies obj then obj # qualifying P ls else qualifying P ls)"
  by (simp add: qualifying_def split: option.splits)

lemma qualifying_Cons_line:
  "qualifying P (l # ls) =
     (if line_qualifies P l then the (loads P l) # qualifying P ls else qualifying P ls)"
  by (simp add: qualifying_Cons line_qualifies_def split: option.splits)

lemma loop_body_line:
  assumes "loop_body P l st = Inr st'"
  shows "st' = (if line_qualifies P l
               then st\<lparr>has_messages := True, out := out st @ block P (the (loads P l))\<rparr>
               else st)"
proof (cases "loads P l")
  case None
  with assms show ?thesis by (simp add: loop_body_None line_qualifies_def)
next
  case (Some obj)
  with loop_body_Inr [OF Some assms] show ?thesis by (simp add: line_qualifies_def)
qed

lemma loop_Inr:
  "loop P ls st = Inr st' \<Longrightarrow>
   st' = st\<lparr>has_messages := has_messages st \<or> qualifying P ls \<noteq> [],
            out := out st @ concat (map (block P) (qualifying P ls))\<rparr>"
proof (induction ls arbitrary: st)
  case Nil
  then show ?case by (simp add: qualifying_Nil)
next
  case (Cons l ls)
  from Cons.prems obtain st1 where b: "loop_body P l st = Inr st1" and r: "loop P ls st1 = Inr st'"
    by (auto split: sum.splits)
  from Cons.IH [OF r] loop_body_line [OF b] show ?case
    by (simp add: qualifying_Cons_line)
qed

lemma run_Inr:
  assumes "run P ls = Inr doc"
  shows "doc = (if qualifying P ls = [] then success_document
               else ustr ''# Cargo Check Report'' @ [10, 10]
                      @ join [10] (concat (map (block P) (qualifying P ls))))"
proof -
  from assms obtain st where l: "loop P ls init = Inr st" and d: "doc = document st"
    by (auto simp: run_def split: sum.splits)
  from loop_Inr [OF l] d show ?thesis
    by (simp add: document_def init_def)
qed

lemma loop_skipped: "\<forall>l\<in>set ls. skipped P l \<Longrightarrow> loop P ls st = Inr st"
  by (induction ls) (simp_all add: loop_body_skipped)




lemma loop_raises_at:
  assumes "\<And>st. \<exists>e. loop_body P l st = Inl e"
  shows "\<exists>e. loop P (pre @ l # post) st0 = Inl e"
proof (cases "loop P pre st0")
  case (Inl e)
  then show ?thesis by (simp add: loop_append)
next
  case (Inr st1)
  from assms [of st1] obtain e where "loop_body P l st1 = Inl e" ..
  with Inr show ?thesis by (simp add: loop_append)
qed

lemma run_raises_at:
  assumes "\<And>st. \<exists>e. loop_body P l st = Inl e"
  shows "\<exists>e. run P (pre @ l # post) = Inl e"
  using loop_raises_at [OF assms, of pre post init] by (auto simp: run_def)

subsection \<open>The joined text\<close>

lemma join_block_app:
  "ys \<noteq> [] \<Longrightarrow> join [10] (block P obj @ ys) = block_text P obj @ [10] @ join [10] ys"
  by (cases ys) (simp_all add: block_def block_text_def)

lemma join_block: "join [10] (block P obj) = block_text P obj"
  by (simp add: block_def block_text_def)

lemma concat_blocks_not_Nil: "qs \<noteq> [] \<Longrightarrow> concat (map (block P) qs) \<noteq> []"
  by (cases qs) (simp_all add: block_def)

lemma join_blocks:
  "join [10] (concat (map (block P) qs)) = join [10] (map (block_text P) qs)"
proof (induction qs)
  case Nil
  show ?case by simp
next
  case (Cons q qs)
  show ?case
  proof (cases qs)
    case Nil
    then show ?thesis by (simp add: join_block)
  next
    case (Cons q' qs')
    then have "concat (map (block P) qs) \<noteq> []"
      by (intro concat_blocks_not_Nil) simp
    from join_block_app [OF this] Cons.IH Cons show ?thesis by simp
  qed
qed

lemma join_map_last:
  "qs \<noteq> [] \<Longrightarrow> \<exists>body. join sep (map f qs) = body @ f (last qs)"
proof (induction qs)
  case Nil
  then show ?case by simp
next
  case (Cons q qs)
  show ?case
  proof (cases qs)
    case Nil
    then show ?thesis by simp
  next
    case (Cons q' qs')
    with Cons.IH obtain body where "join sep (map f qs) = body @ f (last qs)"
      by auto
    with Cons have "join sep (map f (q # qs)) = (f q @ sep @ body) @ f (last (q # qs))"
      by simp
    then show ?thesis by blast
  qed
qed

subsection \<open>Evaluation of the sample inputs\<close>

lemmas eval_defs =
  sample_python_def sample_table_def sample_float_bool_def sample_repr_def
  record_mismatched_def record_unused_def record_artifact_def record_null_rendered_def
  record_text_message_def record_no_spans_def
  run_def init_def loop_body_def py_get_def truthy_def py_first_def py_title_def py_rstrip_def
  py_str_def title_def rstrip_def is_space_def document_def success_document_def append_def
  show_int_def ustr_def to_upper_def to_lower_def is_upper_def is_lower_def Let_def
  line_qualifies_def qualifies_def field_def field_or_def block_def heading_line_def
  location_line_def rendered_text_def first_span_def text_of_def capitalize_def
  qualifying_def is_object_def is_text_def empty_value_def skips_def emits_def skipped_def
  handled_def

lemma show_nat_10: "show_nat 10 = [49, 48]"
  by (simp add: show_nat.simps)

lemma show_nat_3: "show_nat 3 = [51]"
  by (simp add: show_nat.simps)

section \<open>The claims\<close>

text \<open>
  C1, as the code has it. A line contributes a block to the report if and only if it
  decodes, the decoded record has \<open>reason\<close> \<open>"compiler-message"\<close>, \<open>message.level\<close>
  \<open>"error"\<close> or \<open>"warning"\<close> and a non-empty \<open>message.spans\<close>, and moreover the first span
  is an object and \<open>message.rendered\<close> is absent or a text; the body of the loop then
  returns with the block of that record appended to \<open>out\<close>.
\<close>

theorem C1_block_iff_filter:
  "((\<exists>st'. loop_body P l st = Inr st' \<and> out st' \<noteq> out st)
      \<longleftrightarrow> (\<exists>obj. loads P l = Some obj \<and> emits obj))
   \<and> (\<forall>obj. loads P l = Some obj \<and> emits obj \<longrightarrow>
         loop_body P l st = Inr (st\<lparr>has_messages := True, out := out st @ block P obj\<rparr>))"
proof -
  have a: "\<exists>obj. loads P l = Some obj \<and> emits obj"
    if r: "loop_body P l st = Inr st'" and n: "out st' \<noteq> out st" for st'
  proof (cases "loads P l")
    case None
    with r n show ?thesis by (simp add: loop_body_None)
  next
    case (Some obj)
    from loop_body_Inr_cases [OF Some r] n have "emits obj" by auto
    with Some show ?thesis by simp
  qed
  have b: "loop_body P l st = Inr (st\<lparr>has_messages := True, out := out st @ block P obj\<rparr>)"
    if "loads P l = Some obj" and "emits obj" for obj
    using that by (rule loop_body_emits)
  have c: "out (st\<lparr>has_messages := True, out := out st @ block P obj\<rparr>) \<noteq> out st" for obj
    by (simp add: block_def)
  show ?thesis
  proof (intro conjI iffI)
    assume "\<exists>st'. loop_body P l st = Inr st' \<and> out st' \<noteq> out st"
    then show "\<exists>obj. loads P l = Some obj \<and> emits obj"
      using a by blast
  next
    assume "\<exists>obj. loads P l = Some obj \<and> emits obj"
    then obtain obj where "loads P l = Some obj" "emits obj" by blast
    from b [OF this] c [of obj]
    show "\<exists>st'. loop_body P l st = Inr st' \<and> out st' \<noteq> out st"
      by blast
  next
    show "\<forall>obj. loads P l = Some obj \<and> emits obj \<longrightarrow>
         loop_body P l st = Inr (st\<lparr>has_messages := True, out := out st @ block P obj\<rparr>)"
      using b by blast
  qed
qed

theorem C1_block_iff_filter_witness:
  "loads sample_python (ustr ''E'') = Some record_mismatched
   \<and> emits (record_mismatched :: unit pyval)
   \<and> loop_body sample_python (ustr ''E'') init
     = Inr (init\<lparr>has_messages := True, out := out init @ block sample_python record_mismatched\<rparr>)"
proof -
  have d: "loads sample_python (ustr ''E'') = Some record_mismatched"
    by (simp add: sample_python_def sample_table_def ustr_def)
  have e: "emits (record_mismatched :: unit pyval)"
    by (simp add: eval_defs)
  note t = C1_block_iff_filter [of sample_python "ustr ''E''" init, THEN conjunct2,
      rule_format, OF conjI [OF d e]]
  from d e t show ?thesis by (intro conjI)
qed

text \<open>
  C1 as it is stated fails: the record of line \<open>R\<close> decodes, has the reason, a level and a
  non-empty \<open>spans\<close>, and its \<open>rendered\<close> is \<open>null\<close>; the body raises and no block is added.
\<close>

theorem C1_counterexample:
  "loads sample_python (ustr ''R'') = Some record_null_rendered
   \<and> qualifies record_null_rendered
   \<and> loop_body sample_python (ustr ''R'') init = Inl AttributeError"
  by (simp add: eval_defs)

text \<open>
  C2, as the code has it. A line that decodes to a value that is no object is not skipped:
  the body of the loop raises \<open>AttributeError\<close> on it, and an input that contains such a
  line ends in an exception, so that no document is written.
\<close>

theorem C2_non_object_raises:
  assumes "loads P l = Some obj" and "\<forall>kvs. obj \<noteq> PDict kvs"
  shows "loop_body P l st = Inl AttributeError \<and> (\<exists>e. run P (pre @ l # post) = Inl e)"
proof
  show "loop_body P l st = Inl AttributeError"
    using assms by (rule loop_body_not_dict)
  show "\<exists>e. run P (pre @ l # post) = Inl e"
    using loop_body_not_dict [OF assms] by (intro run_raises_at) blast
qed

theorem C2_non_object_raises_witness:
  "loads sample_python (ustr ''5'') = Some (PInt 5) \<and> (\<forall>kvs. PInt 5 \<noteq> (PDict kvs :: unit pyval))
   \<and> loop_body sample_python (ustr ''5'') init = Inl AttributeError
   \<and> (\<exists>e. run sample_python ([ustr ''E''] @ ustr ''5'' # [ustr ''W'']) = Inl e)"
proof -
  have h: "loads sample_python (ustr ''5'') = Some (PInt 5)"
    by (simp add: eval_defs)
  have n: "\<forall>kvs. PInt 5 \<noteq> (PDict kvs :: unit pyval)"
    by simp
  from C2_non_object_raises [OF h n, of init "[ustr ''E'']" "[ustr ''W'']"] h n
  show ?thesis by blast
qed

text \<open>
  C2 as it is stated fails: the line \<open>5\<close> decodes to a number, and the input with that
  line ends in \<open>AttributeError\<close>, which is not what the input without it gives.
\<close>

theorem C2_counterexample:
  "loads sample_python (ustr ''5'') = Some (PInt 5)
   \<and> run sample_python [ustr ''5'', ustr ''E''] = Inl AttributeError
   \<and> run sample_python [ustr ''5'', ustr ''E''] \<noteq> run sample_python [ustr ''E'']"
  by (simp add: eval_defs show_nat_10)

text \<open>
  C3, as the code has it. For every input in which each line either fails to decode or
  decodes to a skipped record (an object whose \<open>reason\<close> is not \<open>"compiler-message"\<close>, or
  whose \<open>message\<close> is absent or an object and has another level or no spans), the script
  writes exactly the success document; an input without lines and an input whose lines
  all fail to decode are such inputs.
\<close>

theorem C3_success_document:
  assumes "\<forall>l\<in>set ls. skipped P l"
  shows "run P ls = Inr success_document"
  using loop_skipped [OF assms, of init] by (simp add: run_def document_def init_def)

theorem C3_success_document_witness:
  "skipped sample_python (ustr ''junk'')
   \<and> skipped sample_python (ustr ''A'')
   \<and> skipped sample_python (ustr ''N'')
   \<and> run sample_python [ustr ''junk'', ustr ''A'', ustr ''N''] = Inr success_document"
proof -
  have j: "skipped sample_python (ustr ''junk'')"
    by (simp add: eval_defs)
  have a: "skipped sample_python (ustr ''A'')"
    by (simp add: eval_defs)
  have n: "skipped sample_python (ustr ''N'')"
    by (simp add: eval_defs)
  from j a n have h: "\<forall>l\<in>set [ustr ''junk'', ustr ''A'', ustr ''N'']. skipped sample_python l"
    by simp
  from C3_success_document [OF h] j a n show ?thesis by blast
qed

text \<open>
  C3 as it is stated fails: the record of line \<open>T\<close> does not pass the filter (its
  \<open>message\<close> is a string, so it has no level), and the script ends in \<open>AttributeError\<close>
  instead of writing the success document.
\<close>

theorem C3_counterexample:
  "\<not> line_qualifies sample_python (ustr ''T'')
   \<and> run sample_python [ustr ''T''] = Inl AttributeError
   \<and> run sample_python [ustr ''T''] \<noteq> Inr success_document"
  by (simp add: eval_defs)

text \<open>
  C4. For the input of one line that decodes to the record with reason
  \<open>"compiler-message"\<close>, level \<open>"error"\<close>, message \<open>"mismatched types"\<close>, the span
  \<open>src/main.rs\<close>, line 10, and the rendered text of two lines, the script writes the
  heading \<open># Cargo Check Report\<close>, a blank line, \<open>### Error: mismatched types\<close>,
  \<open>File: src/main.rs:10\<close>, and the fence tagged \<open>rust\<close> around the rendered text, with
  nothing between the text and the closing fence.
\<close>

theorem C4_mismatched_types_report:
  assumes "loads P l = Some record_mismatched"
  shows "run P [l] =
     Inr (ustr ''# Cargo Check Report'' @ [10, 10]
          @ ustr ''### Error: mismatched types'' @ [10]
          @ ustr ''File: src/main.rs:10'' @ [10]
          @ ustr ''```rust'' @ [10]
          @ ustr ''error: mismatched types'' @ [10]
          @ ustr '' --> src/main.rs:10'' @ [10]
          @ ustr ''```'' @ [10])"
  using assms
  by (simp add: run_def init_def loop_body_def record_mismatched_def py_get_def truthy_def
        py_first_def py_title_def py_rstrip_def py_str_def title_def rstrip_def is_space_def
        document_def append_def show_int_def show_nat_10 ustr_def to_upper_def to_lower_def
        is_upper_def is_lower_def Let_def)

theorem C4_mismatched_types_report_witness:
  "loads sample_python (ustr ''E'') = Some record_mismatched
   \<and> run sample_python [ustr ''E''] =
     Inr (ustr ''# Cargo Check Report'' @ [10, 10]
          @ ustr ''### Error: mismatched types'' @ [10]
          @ ustr ''File: src/main.rs:10'' @ [10]
          @ ustr ''```rust'' @ [10]
          @ ustr ''error: mismatched types'' @ [10]
          @ ustr '' --> src/main.rs:10'' @ [10]
          @ ustr ''```'' @ [10])"
proof -
  have h: "loads sample_python (ustr ''E'') = Some record_mismatched"
    by (simp add: sample_python_def sample_table_def ustr_def)
  from C4_mismatched_types_report [OF h] h show ?thesis by blast
qed




text \<open>
  C6. In a report the document is the heading, a blank line, and the buffered lines of
  all blocks joined by newlines. The last buffered line of every block is the closing
  fence with a newline of its own, so the text of each block ends with the fence and that
  newline, the join puts one more newline between two blocks, and the document ends with
  the closing fence of the last block and its newline.
\<close>

theorem C6_report_shape:
  assumes "run P ls = Inr doc" and "qualifying P ls \<noteq> []"
  shows "doc = ustr ''# Cargo Check Report'' @ [10, 10]
                 @ join [10] (concat (map (block P) (qualifying P ls)))
       \<and> doc = ustr ''# Cargo Check Report'' @ [10, 10]
                 @ join [10] (map (block_text P) (qualifying P ls))
       \<and> (\<forall>obj\<in>set (qualifying P ls). \<exists>body.
             last (block P obj) = ustr ''```'' @ [10]
             \<and> block_text P obj = body @ ustr ''```'' @ [10])
       \<and> (\<exists>body. doc = body @ ustr ''```'' @ [10])"
proof -
  let ?qs = "qualifying P ls"
  from run_Inr [OF assms(1)] assms(2)
  have d: "doc = ustr ''# Cargo Check Report'' @ [10, 10] @ join [10] (concat (map (block P) ?qs))"
    by simp
  then have t: "doc = ustr ''# Cargo Check Report'' @ [10, 10] @ join [10] (map (block_text P) ?qs)"
    by (simp add: join_blocks)
  have b: "\<forall>obj\<in>set ?qs. \<exists>body. last (block P obj) = ustr ''```'' @ [10]
      \<and> block_text P obj = body @ ustr ''```'' @ [10]"
  proof
    fix obj
    have "block_text P obj =
        (heading_line P obj @ [10] @ location_line P obj @ [10] @ ustr ''```rust'' @ [10]
           @ rendered_text obj @ [10]) @ ustr ''```'' @ [10]"
      by (simp add: block_text_def)
    then show "\<exists>body. last (block P obj) = ustr ''```'' @ [10]
        \<and> block_text P obj = body @ ustr ''```'' @ [10]"
      by (simp add: block_def)
  qed
  from join_map_last [OF assms(2), of "[10]" "block_text P"] obtain body where
    "join [10] (map (block_text P) ?qs) = body @ block_text P (last ?qs)"
    by blast
  then have "doc = (ustr ''# Cargo Check Report'' @ [10, 10] @ body @ heading_line P (last ?qs)
      @ [10] @ location_line P (last ?qs) @ [10] @ ustr ''```rust'' @ [10]
      @ rendered_text (last ?qs) @ [10]) @ ustr ''```'' @ [10]"
    using t by (simp add: block_text_def)
  then have e: "\<exists>body. doc = body @ ustr ''```'' @ [10]"
    by blast
  from d t b e show ?thesis by blast
qed

theorem C6_report_shape_witness:
  "run sample_python [ustr ''W'', ustr ''E'']
     = Inr (ustr ''# Cargo Check Report'' @ [10, 10]
            @ join [10] (map (block_text sample_python) [record_unused, record_mismatched]))
   \<and> qualifying sample_python [ustr ''W'', ustr ''E''] = [record_unused, record_mismatched]
   \<and> (\<exists>body. ustr ''# Cargo Check Report'' @ [10, 10]
            @ join [10] (map (block_text sample_python) [record_unused, record_mismatched])
          = body @ ustr ''```'' @ [10])"
proof -
  have q: "qualifying sample_python [ustr ''W'', ustr ''E''] = [record_unused, record_mismatched]"
    by (simp add: eval_defs)
  have r: "run sample_python [ustr ''W'', ustr ''E'']
     = Inr (ustr ''# Cargo Check Report'' @ [10, 10]
            @ join [10] (map (block_text sample_python) [record_unused, record_mismatched]))"
    by (simp add: eval_defs block_text_def show_nat_10 show_nat_3)
  have n: "qualifying sample_python [ustr ''W'', ustr ''E''] \<noteq> []"
    by (simp add: q)
  from C6_report_shape [OF r n] q r show ?thesis by blast
qed



text \<open>
  C9. The heading of the block that a line adds is \<open>### Error: \<close> followed by the message
  text when the level of its record is \<open>"error"\<close>, and \<open>### Warning: \<close> followed by the
  message text when it is \<open>"warning"\<close>: the level with its first letter capitalised and the
  rest in lower case.
\<close>

theorem C9_heading_capitalised:
  assumes "loads P l = Some obj" and "loop_body P l st = Inr st'" and "st' \<noteq> st"
  shows "(field_or (field_or obj (ustr ''message'') (PDict [])) (ustr ''level'') PNone
            = PStr (ustr ''error'')
          \<and> out st' ! length (out st)
            = ustr ''### Error: ''
                @ py_str P (field_or (field_or obj (ustr ''message'') (PDict []))
                              (ustr ''message'') (PStr [])))
       \<or> (field_or (field_or obj (ustr ''message'') (PDict [])) (ustr ''level'') PNone
            = PStr (ustr ''warning'')
          \<and> out st' ! length (out st)
            = ustr ''### Warning: ''
                @ py_str P (field_or (field_or obj (ustr ''message'') (PDict []))
                              (ustr ''message'') (PStr [])))"
proof -
  from loop_body_Inr [OF assms(1,2)] assms(3)
  have q: "qualifies obj"
    and st': "st' = st\<lparr>has_messages := True, out := out st @ block P obj\<rparr>"
    by (auto split: if_splits)
  have h: "out st' ! length (out st) = heading_line P obj"
    by (simp add: st' block_def)
  have e: "ustr ''### '' @ ustr ''Error'' @ ustr '': '' @ x = ustr ''### Error: '' @ x"
    and w: "ustr ''### '' @ ustr ''Warning'' @ ustr '': '' @ x = ustr ''### Warning: '' @ x"
    for x
    by (simp_all add: ustr_def)
  from q have "field_or (field_or obj (ustr ''message'') (PDict [])) (ustr ''level'') PNone
        = PStr (ustr ''error'')
      \<or> field_or (field_or obj (ustr ''message'') (PDict [])) (ustr ''level'') PNone
        = PStr (ustr ''warning'')"
    by (simp add: qualifies_iff)
  then show ?thesis
    using h by (auto simp: heading_line_def text_of_def capitalize_level e w)
qed

theorem C9_heading_capitalised_witness:
  "loads sample_python (ustr ''W'') = Some record_unused
   \<and> loop_body sample_python (ustr ''W'') init
     = Inr (init\<lparr>has_messages := True, out := block sample_python record_unused\<rparr>)
   \<and> init\<lparr>has_messages := True, out := block sample_python record_unused\<rparr> \<noteq> init
   \<and> out (init\<lparr>has_messages := True, out := block sample_python record_unused\<rparr>)
       ! length (out init) = ustr ''### Warning: unused variable''"
proof -
  have d: "loads sample_python (ustr ''W'') = Some record_unused"
    by (simp add: sample_python_def sample_table_def ustr_def)
  have h: "loop_body sample_python (ustr ''W'') init
     = Inr (init\<lparr>has_messages := True, out := block sample_python record_unused\<rparr>)"
    by (simp add: eval_defs show_nat_3)
  have n: "init\<lparr>has_messages := True, out := block sample_python record_unused\<rparr> \<noteq> init"
    by (simp add: init_def)
  have lv: "field_or (field_or record_unused (ustr ''message'') (PDict [])) (ustr ''level'') PNone
      \<noteq> (PStr (ustr ''error'') :: unit pyval)"
    by (simp add: eval_defs)
  have m: "ustr ''### Warning: ''
      @ py_str sample_python (field_or (field_or record_unused (ustr ''message'') (PDict []))
          (ustr ''message'') (PStr []))
      = ustr ''### Warning: unused variable''"
    by (simp add: eval_defs)
  from C9_heading_capitalised [OF d h n] lv m d h n show ?thesis by auto
qed

text \<open>
  C10. A line that decodes to an object whose \<open>reason\<close> is \<open>"compiler-message"\<close> and whose
  \<open>message\<close> is present and is no object makes the body of the loop raise
  \<open>AttributeError\<close>; an input that contains such a line ends in an exception, the line is
  not skipped and no document is written.
\<close>

theorem C10_message_not_object_raises:
  assumes "loads P l = Some obj"
    and "field obj (ustr ''reason'') = Some (PStr (ustr ''compiler-message''))"
    and "field obj (ustr ''message'') = Some m"
    and "\<forall>mk. m \<noteq> PDict mk"
  shows "loop_body P l st = Inl AttributeError \<and> (\<exists>e. run P (pre @ l # post) = Inl e)"
proof -
  from assms(2) obtain kvs where obj: "obj = PDict kvs"
    by (cases obj) (simp_all add: field_def)
  have r: "field_or (PDict kvs) (ustr ''reason'') PNone = PStr (ustr ''compiler-message'')"
    using assms(2) by (simp add: obj field_or_def)
  have n: "\<forall>mk. field_or (PDict kvs) (ustr ''message'') (PDict []) \<noteq> PDict mk"
    using assms(3,4) by (simp add: obj field_or_def)
  have b: "loop_body P l st = Inl AttributeError" for st
    using loop_body_message_not_dict [OF assms(1) [unfolded obj] r n] .
  then have "\<exists>e. run P (pre @ l # post) = Inl e"
    by (intro run_raises_at) blast
  with b show ?thesis by blast
qed

theorem C10_message_not_object_raises_witness:
  "loads sample_python (ustr ''T'') = Some record_text_message
   \<and> field record_text_message (ustr ''reason'') = Some (PStr (ustr ''compiler-message''))
   \<and> field record_text_message (ustr ''message'') = Some (PStr (ustr ''some text''))
   \<and> (\<forall>mk. PStr (ustr ''some text'') \<noteq> (PDict mk :: unit pyval))
   \<and> loop_body sample_python (ustr ''T'') init = Inl AttributeError
   \<and> (\<exists>e. run sample_python ([ustr ''E''] @ ustr ''T'' # [ustr ''W'']) = Inl e)"
proof -
  have d: "loads sample_python (ustr ''T'') = Some record_text_message"
    by (simp add: sample_python_def sample_table_def ustr_def)
  have r: "field record_text_message (ustr ''reason'') = Some (PStr (ustr ''compiler-message''))"
    by (simp add: record_text_message_def field_def ustr_def)
  have m: "field record_text_message (ustr ''message'') = Some (PStr (ustr ''some text''))"
    by (simp add: record_text_message_def field_def ustr_def)
  have n: "\<forall>mk. PStr (ustr ''some text'') \<noteq> (PDict mk :: unit pyval)"
    by simp
  from C10_message_not_object_raises [OF d r m n, of init "[ustr ''E'']" "[ustr ''W'']"] d r m n
  show ?thesis by blast
qed

end
